theory Spec2Isabelle
  imports Complex_Main
begin

section \<open>Data model of \<open>partition.cpp\<close>\<close>

text \<open>
  The source works on Eigen vectors of \<open>int\<close> (\<open>Vector\<close>), on the rows of an
  Eigen \<open>n \<times> 2\<close> integer matrix (\<open>Matrix2Column\<close>: one row \<open>(neighbor, weight)\<close>
  per outgoing edge) and on a \<open>BoostMappedMatrix\<close>. Entries are modelled as
  unbounded integers: the arithmetic of the source is addition of edge weights and
  counters, and signed overflow of \<open>int\<close> is undefined in C++, so the model speaks
  about runs in which no sum leaves the range of \<open>int\<close>.

  An index outside a vector is an \<open>eigen_assert\<close> failure (undefined behaviour
  when assertions are compiled out). The model makes each such access an error
  value that names the indexed vector, so that a run which indexes out of range
  never counts as a run that returns.
\<close>

type_synonym Vector = "int list"

type_synonym Matrix2Column = "(int \<times> int) list"

datatype access =
    BlockAssignment | BlockDegreesOut | BlockDegreesIn | Blockmodel
  | BestMerges | BestMergeForEachBlock | BlockMap | Mapping
  | Uniques | SampleBlockMembership | BlockCounts | Unsorted

datatype error = OutOfRange access | SizeMismatch | EmptyVector | NegativeSize

text \<open>Sequencing of fallible steps: the first error ends the run.\<close>

definition bind_res :: "error + 'a \<Rightarrow> ('a \<Rightarrow> error + 'b) \<Rightarrow> error + 'b" where
  "bind_res m f = (case m of Inl e \<Rightarrow> Inl e | Inr x \<Rightarrow> f x)"

text \<open>\<open>v[i]\<close> as a read and \<open>v[i] = x\<close> as a write, for an index of type \<open>int\<close>.\<close>

definition in_range :: "'a list \<Rightarrow> int \<Rightarrow> bool" where
  "in_range v i = (0 \<le> i \<and> i < int (length v))"

definition vget :: "access \<Rightarrow> 'a list \<Rightarrow> int \<Rightarrow> error + 'a" where
  "vget a v i = (if in_range v i then Inr (v ! nat i) else Inl (OutOfRange a))"

definition vset :: "access \<Rightarrow> 'a list \<Rightarrow> int \<Rightarrow> 'a \<Rightarrow> error + 'a list" where
  "vset a v i x = (if in_range v i then Inr (v[nat i := x]) else Inl (OutOfRange a))"

text \<open>\<open>v[i] += w\<close>.\<close>

definition vadd :: "access \<Rightarrow> Vector \<Rightarrow> int \<Rightarrow> int \<Rightarrow> error + Vector" where
  "vadd a v i w = (if in_range v i then Inr (v[nat i := v ! nat i + w]) else Inl (OutOfRange a))"

subsection \<open>The aggregate matrix\<close>

text \<open>
  Modelled from the spec: \<open>BoostMappedMatrix\<close> (its class is declared in a header
  of the repository that is not among the sources). The spec asks of it a square
  matrix indexed by block id with three operations: allocation zeroed, point
  increment, and a deep copy. The model is the dense matrix of its cells, row by
  row; an increment outside the matrix is an out-of-range access.
\<close>

type_synonym BoostMappedMatrix = "int list list"

definition BoostMappedMatrix :: "int \<Rightarrow> int \<Rightarrow> BoostMappedMatrix" where
  "BoostMappedMatrix nrows ncols = replicate (nat nrows) (replicate (nat ncols) 0)"

definition matrix_add :: "BoostMappedMatrix \<Rightarrow> int \<Rightarrow> int \<Rightarrow> int \<Rightarrow> error + BoostMappedMatrix" where
  "matrix_add m row col w =
     (if in_range m row \<and> in_range (m ! nat row) col
      then Inr (m[nat row := (m ! nat row)[nat col := m ! nat row ! nat col + w]])
      else Inl (OutOfRange Blockmodel))"

definition matrix_copy :: "BoostMappedMatrix \<Rightarrow> BoostMappedMatrix" where
  "matrix_copy m = map (\<lambda>row. row) m"

definition row_sum :: "BoostMappedMatrix \<Rightarrow> nat \<Rightarrow> int" where
  "row_sum m i = sum_list (m ! i)"

definition col_sum :: "BoostMappedMatrix \<Rightarrow> nat \<Rightarrow> int" where
  "col_sum m j = sum_list (map (\<lambda>row. row ! j) m)"

subsection \<open>The partition\<close>

record Partition =
  num_blocks :: int
  block_assignment :: Vector
  blockmodel :: BoostMappedMatrix
  block_degrees :: Vector
  block_degrees_out :: Vector
  block_degrees_in :: Vector
  block_reduction_rate :: real
  num_blocks_to_merge :: int
  overall_entropy :: real

text \<open>
  Modelled from the spec: the constructor \<open>Partition(num_blocks, neighbors,
  block_reduction_rate, block_assignment)\<close>, declared in \<open>partition.hpp\<close>, which is
  not among the sources. The spec (4.1, "from explicit assignment") has it store
  the block count and the assignment as they are given and leaves edge-count
  initialisation to the caller; the aggregates start zeroed, one entry per block,
  as 4.2 needs for a single initialisation pass to be right. The spec gives no
  initial value for the pending-merge count and the entropy: they start at \<open>0\<close>
  here, and nothing below depends on that choice.
\<close>

definition Partition_assigned :: "int \<Rightarrow> Matrix2Column list \<Rightarrow> real \<Rightarrow> Vector \<Rightarrow> Partition" where
  "Partition_assigned n neighbors rate assignment =
     \<lparr> num_blocks = n,
       block_assignment = assignment,
       blockmodel = BoostMappedMatrix n n,
       block_degrees = replicate (nat n) 0,
       block_degrees_out = replicate (nat n) 0,
       block_degrees_in = replicate (nat n) 0,
       block_reduction_rate = rate,
       num_blocks_to_merge = 0,
       overall_entropy = 0 \<rparr>"

text \<open>
  Modelled from the spec: the constructor \<open>Partition(num_blocks, neighbors,
  block_reduction_rate)\<close> without an assignment, also declared in the missing
  header. The spec fixes the block count at creation and the length of the
  assignment at the number of vertices; which block each vertex starts in is not
  said, and the only caller in the sources (\<open>copy\<close>) passes no vertices.
\<close>

definition Partition_fresh :: "int \<Rightarrow> Matrix2Column list \<Rightarrow> real \<Rightarrow> Partition" where
  "Partition_fresh n neighbors rate =
     Partition_assigned n neighbors rate (replicate (length neighbors) 0)"

section \<open>\<open>Partition::initialize_edge_counts\<close>\<close>

text \<open>
  Lines 13 to 21, the body of the inner loop for one row \<open>(neighbor, weight)\<close> of
  \<open>vertex_neighbors\<close>. The in-degree is accumulated at index \<open>neighbor\<close>, as line
  21 has it.
\<close>

definition edge_step :: "Partition \<Rightarrow> int \<Rightarrow> int \<times> int \<Rightarrow> error + Partition" where
  "edge_step this vertex row =
     bind_res (vget BlockAssignment (block_assignment this) vertex) (\<lambda>block.
     let neighbor = fst row in
     bind_res (vget BlockAssignment (block_assignment this) neighbor) (\<lambda>neighbor_block.
     let weight = snd row in
     bind_res (matrix_add (blockmodel this) block neighbor_block weight) (\<lambda>bm.
     bind_res (vadd BlockDegreesOut (block_degrees_out this) block weight) (\<lambda>degrees_out.
     bind_res (vadd BlockDegreesIn (block_degrees_in this) neighbor weight) (\<lambda>degrees_in.
       Inr (this\<lparr> blockmodel := bm,
                   block_degrees_out := degrees_out,
                   block_degrees_in := degrees_in \<rparr>))))))"

text \<open>The inner loop over the rows of one vertex (lines 11 to 22).\<close>

fun edge_loop :: "Partition \<Rightarrow> int \<Rightarrow> Matrix2Column \<Rightarrow> error + Partition" where
  "edge_loop this vertex [] = Inr this"
| "edge_loop this vertex (row # rows) =
     (case edge_step this vertex row of
        Inl e \<Rightarrow> Inl e
      | Inr this' \<Rightarrow> edge_loop this' vertex rows)"

text \<open>The outer loop over the vertices (lines 6 to 23); \<open>vertex\<close> counts from \<open>0\<close>.\<close>

fun vertex_loop :: "Partition \<Rightarrow> int \<Rightarrow> Matrix2Column list \<Rightarrow> error + Partition" where
  "vertex_loop this vertex [] = Inr this"
| "vertex_loop this vertex (vertex_neighbors # rest) =
     (if length vertex_neighbors = 0 then vertex_loop this (vertex + 1) rest
      else case edge_loop this vertex vertex_neighbors of
             Inl e \<Rightarrow> Inl e
           | Inr this' \<Rightarrow> vertex_loop this' (vertex + 1) rest)"

text \<open>Eigen's coefficient-wise sum of two vectors, which asserts equal sizes.\<close>

definition vector_plus :: "Vector \<Rightarrow> Vector \<Rightarrow> error + Vector" where
  "vector_plus a b = (if length a = length b then Inr (map2 (+) a b) else Inl SizeMismatch)"

definition initialize_edge_counts :: "Partition \<Rightarrow> Matrix2Column list \<Rightarrow> error + Partition" where
  "initialize_edge_counts this neighbors =
     bind_res (vertex_loop
                 (this\<lparr> blockmodel := BoostMappedMatrix (num_blocks this) (num_blocks this) \<rparr>)
                 0 neighbors) (\<lambda>this'.
     bind_res (vector_plus (block_degrees_out this') (block_degrees_in this')) (\<lambda>degrees.
       Inr (this'\<lparr> block_degrees := degrees \<rparr>)))"

section \<open>\<open>Partition::clone_with_true_block_membership\<close>\<close>

text \<open>\<open>Vector::Constant(size, x)\<close> and \<open>Vector::Zero(size)\<close>; Eigen asserts \<open>size \<ge> 0\<close>.\<close>

definition Constant :: "int \<Rightarrow> int \<Rightarrow> error + Vector" where
  "Constant len x = (if len < 0 then Inl NegativeSize else Inr (replicate (nat len) x))"

definition Zero :: "int \<Rightarrow> error + Vector" where
  "Zero len = Constant len 0"

text \<open>Lines 32 to 35: each membership value marks its own slot of \<open>uniques\<close>.\<close>

fun mark_used :: "Vector \<Rightarrow> Vector \<Rightarrow> error + Vector" where
  "mark_used uniques [] = Inr uniques"
| "mark_used uniques (membership # rest) =
     (case vset Uniques uniques membership 1 of
        Inl e \<Rightarrow> Inl e
      | Inr uniques' \<Rightarrow> mark_used uniques' rest)"

text \<open>Lines 36 to 40: the marked slots are counted.\<close>

fun count_used :: "int \<Rightarrow> Vector \<Rightarrow> int" where
  "count_used n [] = n"
| "count_used n (u # us) = count_used (if u = 1 then n + 1 else n) us"

definition clone_with_true_block_membership ::
    "Partition \<Rightarrow> Matrix2Column list \<Rightarrow> Vector \<Rightarrow> error + Partition" where
  "clone_with_true_block_membership this neighbors true_block_membership =
     bind_res (Zero (int (length true_block_membership))) (\<lambda>uniques0.
     bind_res (mark_used uniques0 true_block_membership) (\<lambda>uniques.
       Inr (Partition_assigned (count_used 0 uniques) neighbors
              (block_reduction_rate this) true_block_membership)))"

section \<open>\<open>Partition::copy\<close>\<close>

text \<open>
  A \<open>Partition\<close> object holds its four vectors and its matrix as members, and
  each of these containers owns a buffer on the heap. Whether two partitions share
  mutable state is a question about those buffers, so \<open>copy\<close> is modelled on a
  heap: a store of vector buffers, a store of matrix buffers, and the first
  address that has not been handed out. A \<open>Partition_object\<close> is the object as
  it lies in memory: its scalar fields, and for each container member the address
  of the buffer it owns.
\<close>

type_synonym addr = nat

record heap =
  vectors :: "addr \<Rightarrow> Vector option"
  matrices :: "addr \<Rightarrow> BoostMappedMatrix option"
  next_free :: addr

record Partition_object =
  num_blocks_of :: int
  block_assignment_at :: addr
  blockmodel_at :: addr
  block_degrees_at :: addr
  block_degrees_out_at :: addr
  block_degrees_in_at :: addr
  block_reduction_rate_of :: real
  num_blocks_to_merge_of :: int
  overall_entropy_of :: real

text \<open>
  Constructing a vector (in particular by Eigen's copy constructor \<open>Vector(v)\<close>)
  allocates a buffer that holds its coefficients; so does constructing a matrix.
\<close>

definition new_vector :: "heap \<Rightarrow> Vector \<Rightarrow> heap \<times> addr" where
  "new_vector h v =
     (h\<lparr> vectors := (vectors h)(next_free h \<mapsto> v), next_free := Suc (next_free h) \<rparr>,
      next_free h)"

definition new_matrix :: "heap \<Rightarrow> BoostMappedMatrix \<Rightarrow> heap \<times> addr" where
  "new_matrix h m =
     (h\<lparr> matrices := (matrices h)(next_free h \<mapsto> m), next_free := Suc (next_free h) \<rparr>,
      next_free h)"

text \<open>The partition an object stands for, if all its buffers are there.\<close>

definition load :: "heap \<Rightarrow> Partition_object \<Rightarrow> Partition option" where
  "load h obj =
     Option.bind (vectors h (block_assignment_at obj)) (\<lambda>assignment.
     Option.bind (matrices h (blockmodel_at obj)) (\<lambda>bm.
     Option.bind (vectors h (block_degrees_at obj)) (\<lambda>degrees.
     Option.bind (vectors h (block_degrees_out_at obj)) (\<lambda>degrees_out.
     Option.bind (vectors h (block_degrees_in_at obj)) (\<lambda>degrees_in.
       Some \<lparr> num_blocks = num_blocks_of obj,
              block_assignment = assignment,
              blockmodel = bm,
              block_degrees = degrees,
              block_degrees_out = degrees_out,
              block_degrees_in = degrees_in,
              block_reduction_rate = block_reduction_rate_of obj,
              num_blocks_to_merge = num_blocks_to_merge_of obj,
              overall_entropy = overall_entropy_of obj \<rparr>)))))"

text \<open>A constructor call: a new object with the value \<open>p\<close>, each member in a new buffer.\<close>

definition construct :: "heap \<Rightarrow> Partition \<Rightarrow> heap \<times> Partition_object" where
  "construct h p =
     (let (h1, assignment_at) = new_vector h (block_assignment p);
          (h2, bm_at) = new_matrix h1 (blockmodel p);
          (h3, degrees_at) = new_vector h2 (block_degrees p);
          (h4, degrees_out_at) = new_vector h3 (block_degrees_out p);
          (h5, degrees_in_at) = new_vector h4 (block_degrees_in p)
      in (h5, \<lparr> num_blocks_of = num_blocks p,
                 block_assignment_at = assignment_at,
                 blockmodel_at = bm_at,
                 block_degrees_at = degrees_at,
                 block_degrees_out_at = degrees_out_at,
                 block_degrees_in_at = degrees_in_at,
                 block_reduction_rate_of = block_reduction_rate p,
                 num_blocks_to_merge_of = num_blocks_to_merge p,
                 overall_entropy_of = overall_entropy p \<rparr>))"

text \<open>
  Lines 44 to 54. Line 45 constructs \<open>partition_copy\<close>; each of the lines 46 and
  48 to 51 reads a member of \<open>this\<close>, copy-constructs a temporary from it
  (\<open>Vector(\<dots>)\<close>, \<open>blockmodel.copy()\<close>) and assigns the temporary to the member of
  \<open>partition_copy\<close>, which from then on owns the temporary's buffer. The result is
  \<open>None\<close> only if a buffer of \<open>this\<close> is missing from the heap.
\<close>

definition copy :: "heap \<Rightarrow> Partition_object \<Rightarrow> (heap \<times> Partition_object) option" where
  "copy h this =
     (let (h0, partition_copy) =
            construct h (Partition_fresh (num_blocks_of this) [] (block_reduction_rate_of this))
      in
      Option.bind (vectors h0 (block_assignment_at this)) (\<lambda>assignment.
      let (h1, a1) = new_vector h0 assignment;
          partition_copy = partition_copy\<lparr> block_assignment_at := a1 \<rparr>;
          partition_copy = partition_copy\<lparr> overall_entropy_of := overall_entropy_of this \<rparr>
      in
      Option.bind (matrices h1 (blockmodel_at this)) (\<lambda>bm.
      let (h2, a2) = new_matrix h1 (matrix_copy bm);
          partition_copy = partition_copy\<lparr> blockmodel_at := a2 \<rparr>
      in
      Option.bind (vectors h2 (block_degrees_at this)) (\<lambda>degrees.
      let (h3, a3) = new_vector h2 degrees;
          partition_copy = partition_copy\<lparr> block_degrees_at := a3 \<rparr>
      in
      Option.bind (vectors h3 (block_degrees_out_at this)) (\<lambda>degrees_out.
      let (h4, a4) = new_vector h3 degrees_out;
          partition_copy = partition_copy\<lparr> block_degrees_out_at := a4 \<rparr>
      in
      Option.bind (vectors h4 (block_degrees_in_at this)) (\<lambda>degrees_in.
      let (h5, a5) = new_vector h4 degrees_in;
          partition_copy = partition_copy\<lparr> block_degrees_in_at := a5 \<rparr>;
          partition_copy = partition_copy\<lparr> num_blocks_to_merge_of := 0 \<rparr>
      in Some (h5, partition_copy)))))))"

text \<open>
  Mutation of a container member writes the member's buffer. These are the
  writes the statements about sharing quantify over.
\<close>

definition write_vector :: "heap \<Rightarrow> addr \<Rightarrow> Vector \<Rightarrow> heap" where
  "write_vector h a v = h\<lparr> vectors := (vectors h)(a \<mapsto> v) \<rparr>"

definition write_matrix :: "heap \<Rightarrow> addr \<Rightarrow> BoostMappedMatrix \<Rightarrow> heap" where
  "write_matrix h a m = h\<lparr> matrices := (matrices h)(a \<mapsto> m) \<rparr>"

definition vector_buffers :: "Partition_object \<Rightarrow> addr list" where
  "vector_buffers obj =
     [block_assignment_at obj, block_degrees_at obj, block_degrees_out_at obj,
      block_degrees_in_at obj]"

text \<open>An object of a heap: its buffers lie below the first free address.\<close>

definition allocated :: "heap \<Rightarrow> Partition_object \<Rightarrow> bool" where
  "allocated h obj =
     (list_all (\<lambda>a. a < next_free h) (vector_buffers obj) \<and> blockmodel_at obj < next_free h)"

definition empty_heap :: heap where
  "empty_heap = \<lparr> vectors = (\<lambda>a. None), matrices = (\<lambda>a. None), next_free = 0 \<rparr>"

section \<open>\<open>Partition::from_sample\<close>\<close>

text \<open>
  Lines 60 to 62. \<open>mapping\<close> is a \<open>std::map<int, int>\<close>, modelled by the list of
  its items in the order the iteration visits them (ascending keys).
\<close>

fun fill_from_sample :: "Vector \<Rightarrow> Vector \<Rightarrow> (int \<times> int) list \<Rightarrow> error + Vector" where
  "fill_from_sample assignment sample_block_membership [] = Inr assignment"
| "fill_from_sample assignment sample_block_membership (item # items) =
     (case vget SampleBlockMembership sample_block_membership (snd item) of
        Inl e \<Rightarrow> Inl e
      | Inr b \<Rightarrow>
         (case vset BlockAssignment assignment (fst item) b of
            Inl e \<Rightarrow> Inl e
          | Inr assignment' \<Rightarrow>
              fill_from_sample assignment' sample_block_membership items))"

text \<open>
  Lines 64 to 71: the vertices \<open>0, 1, \<dots>\<close> below \<open>neighbors.size()\<close> that are still
  negative get the next temporary block number. The list argument is the remaining
  range of \<open>vertex\<close>.
\<close>

fun assign_next_blocks :: "Vector \<Rightarrow> int \<Rightarrow> nat list \<Rightarrow> error + Vector" where
  "assign_next_blocks assignment next_block [] = Inr assignment"
| "assign_next_blocks assignment next_block (vertex # vertices) =
     (case vget BlockAssignment assignment (int vertex) of
        Inl e \<Rightarrow> Inl e
      | Inr b \<Rightarrow>
         if b \<ge> 0 then assign_next_blocks assignment next_block vertices
         else (case vset BlockAssignment assignment (int vertex) next_block of
                 Inl e \<Rightarrow> Inl e
               | Inr assignment' \<Rightarrow>
                   assign_next_blocks assignment' (next_block + 1) vertices))"

text \<open>Lines 79 to 85: the tally of the neighbours' blocks below \<open>num_blocks\<close>.\<close>

fun count_neighbor_blocks :: "Vector \<Rightarrow> int \<Rightarrow> Vector \<Rightarrow> Matrix2Column \<Rightarrow> error + Vector" where
  "count_neighbor_blocks assignment n block_counts [] = Inr block_counts"
| "count_neighbor_blocks assignment n block_counts (row # rows) =
     (case vget BlockAssignment assignment (fst row) of
        Inl e \<Rightarrow> Inl e
      | Inr neighbor_block \<Rightarrow>
         if neighbor_block < n
         then (case vadd BlockCounts block_counts neighbor_block 1 of
                 Inl e \<Rightarrow> Inl e
               | Inr block_counts' \<Rightarrow> count_neighbor_blocks assignment n block_counts' rows)
         else count_neighbor_blocks assignment n block_counts rows)"

text \<open>
  \<open>maxCoeff(&index)\<close>: Eigen visits the coefficients in order and moves to a later
  one only when it is strictly greater, so the index is that of the first maximum;
  on an empty vector it asserts.
\<close>

fun max_visit :: "int \<Rightarrow> int \<Rightarrow> int \<Rightarrow> Vector \<Rightarrow> int" where
  "max_visit res row i [] = row"
| "max_visit res row i (x # xs) =
     (if x > res then max_visit x i (i + 1) xs else max_visit res row (i + 1) xs)"

definition maxCoeff_index :: "Vector \<Rightarrow> error + int" where
  "maxCoeff_index v = (case v of [] \<Rightarrow> Inl EmptyVector | x # xs \<Rightarrow> Inr (max_visit x 0 1 xs))"

text \<open>Lines 73 to 89: every vertex still in a temporary block moves to its best block.\<close>

fun assign_most_connected ::
    "Vector \<Rightarrow> int \<Rightarrow> int \<Rightarrow> Matrix2Column list \<Rightarrow> error + Vector" where
  "assign_most_connected assignment n vertex [] = Inr assignment"
| "assign_most_connected assignment n vertex (vertex_neighbors # rest) =
     (case vget BlockAssignment assignment vertex of
        Inl e \<Rightarrow> Inl e
      | Inr b \<Rightarrow>
         if b < n then assign_most_connected assignment n (vertex + 1) rest
         else
           (case bind_res (Zero n) (\<lambda>block_counts0.
                 bind_res (count_neighbor_blocks assignment n block_counts0 vertex_neighbors)
                   (\<lambda>block_counts.
                 bind_res (maxCoeff_index block_counts) (\<lambda>new_block.
                   vset BlockAssignment assignment vertex new_block))) of
              Inl e \<Rightarrow> Inl e
            | Inr assignment' \<Rightarrow>
                assign_most_connected assignment' n (vertex + 1) rest))"

definition from_sample ::
    "int \<Rightarrow> Matrix2Column list \<Rightarrow> Vector \<Rightarrow> (int \<times> int) list \<Rightarrow> real \<Rightarrow> error + Partition" where
  "from_sample n neighbors sample_block_membership mapping rate =
     bind_res (Constant n (- 1)) (\<lambda>assignment0.
     bind_res (fill_from_sample assignment0 sample_block_membership mapping)
       (\<lambda>assignment1.
     bind_res (assign_next_blocks assignment1 n [0..<length neighbors])
       (\<lambda>assignment2.
     bind_res (assign_most_connected assignment2 n 0 neighbors)
       (\<lambda>assignment3.
       Inr (Partition_assigned n neighbors rate assignment3)))))"

section \<open>\<open>Partition::merge_blocks\<close>\<close>

text \<open>
  The loop of lines 94 to 98: \<open>index\<close> runs over the positions of
  \<open>block_assignment\<close> and overwrites each entry equal to \<open>from_block\<close>.
\<close>

function merge_blocks_loop :: "Vector \<Rightarrow> int \<Rightarrow> int \<Rightarrow> nat \<Rightarrow> Vector" where
  "merge_blocks_loop assignment from_block to_block index =
     (if index < length assignment
      then merge_blocks_loop
             (if assignment ! index = from_block then assignment[index := to_block] else assignment)
             from_block to_block (index + 1)
      else assignment)"
  by pat_completeness auto
termination
  by (relation "measure (\<lambda>(assignment, from_block, to_block, index). length assignment - index)") auto

declare merge_blocks_loop.simps [simp del]

definition merge_blocks :: "Partition \<Rightarrow> int \<Rightarrow> int \<Rightarrow> Partition" where
  "merge_blocks this from_block to_block =
     this\<lparr> block_assignment := merge_blocks_loop (block_assignment this) from_block to_block 0 \<rparr>"

section \<open>\<open>sort_indices\<close>\<close>

text \<open>
  \<open>Vector::LinSpaced(size, low, high)\<close>. Eigen documents that for \<open>size = 1\<close> the
  result is the vector of length one that holds \<open>high\<close>; both calls in the source
  pass the literal \<open>1\<close> as the size. For larger sizes the model gives the evenly
  spaced integers from \<open>low\<close> in steps of \<open>(high - low) div (size - 1)\<close>, the
  documented result when the step divides the range; the source never gets there.
\<close>

fun LinSpaced :: "nat \<Rightarrow> int \<Rightarrow> int \<Rightarrow> Vector" where
  "LinSpaced (Suc 0) low high = [high]"
| "LinSpaced len low high =
     map (\<lambda>i. low + int i * ((high - low) div (int len - 1))) [0..<len]"

text \<open>
  \<open>std::sort\<close> with a comparator, as insertion into the sorted rest; the
  comparator of the source reads \<open>unsorted\<close> at both indices, so it is fallible. A
  range of one element is sorted without a comparison.
\<close>

fun insert_sorted :: "('a \<Rightarrow> 'a \<Rightarrow> error + bool) \<Rightarrow> 'a \<Rightarrow> 'a list \<Rightarrow> error + 'a list" where
  "insert_sorted cmp x [] = Inr [x]"
| "insert_sorted cmp x (y # ys) =
     (case cmp x y of
        Inl e \<Rightarrow> Inl e
      | Inr before \<Rightarrow>
         if before then Inr (x # y # ys)
         else (case insert_sorted cmp x ys of
                 Inl e \<Rightarrow> Inl e
               | Inr zs \<Rightarrow> Inr (y # zs)))"

fun std_sort :: "('a \<Rightarrow> 'a \<Rightarrow> error + bool) \<Rightarrow> 'a list \<Rightarrow> error + 'a list" where
  "std_sort cmp [] = Inr []"
| "std_sort cmp (x # xs) =
     (case std_sort cmp xs of
        Inl e \<Rightarrow> Inl e
      | Inr ys \<Rightarrow> insert_sorted cmp x ys)"

text \<open>The comparator of line 108: \<open>unsorted[i1] > unsorted[i2]\<close>.\<close>

definition greater_score :: "real list \<Rightarrow> int \<Rightarrow> int \<Rightarrow> error + bool" where
  "greater_score unsorted i1 i2 =
     bind_res (vget Unsorted unsorted i1) (\<lambda>a.
     bind_res (vget Unsorted unsorted i2) (\<lambda>b. Inr (a > b)))"

definition sort_indices :: "real list \<Rightarrow> error + Vector" where
  "sort_indices unsorted =
     (let indices = LinSpaced 1 0 (int (length unsorted) - 1)
      in std_sort (greater_score unsorted) indices)"

section \<open>\<open>Partition::carry_out_best_merges\<close>\<close>

text \<open>
  The \<open>while\<close> loop of lines 119 to 133, on the state \<open>(num_merged, counter,
  block_map, this)\<close>. Each of the three reads of line 120 and 121 can leave its
  vector. The scan of lines 124 to 129 over \<open>block_map\<close> is the scan of
  \<open>merge_blocks\<close> over another vector.
\<close>

lemma in_range_next: "in_range v c \<Longrightarrow> length v - nat (c + 1) < length v - nat c"
  unfolding in_range_def by linarith

function merge_loop ::
    "Vector \<Rightarrow> Vector \<Rightarrow> int \<times> int \<times> Vector \<times> Partition
       \<Rightarrow> error + (int \<times> int \<times> Vector \<times> Partition)" where
  "merge_loop best_merges best_merge_for_each_block (num_merged, counter, block_map, this) =
     (if num_merged < num_blocks_to_merge this
      then
        if \<not> in_range best_merges counter then Inl (OutOfRange BestMerges)
        else
          let merge_from = best_merges ! nat counter in
          if \<not> in_range best_merge_for_each_block merge_from
          then Inl (OutOfRange BestMergeForEachBlock)
          else
            let proposed = best_merge_for_each_block ! nat merge_from in
            if \<not> in_range block_map proposed then Inl (OutOfRange BlockMap)
            else
              let merge_to = block_map ! nat proposed in
              if merge_to \<noteq> merge_from
              then merge_loop best_merges best_merge_for_each_block
                     (num_merged + 1, counter + 1,
                      merge_blocks_loop block_map merge_from merge_to 0,
                      merge_blocks this merge_from merge_to)
              else merge_loop best_merges best_merge_for_each_block
                     (num_merged, counter + 1, block_map, this)
      else Inr (num_merged, counter, block_map, this))"
  by pat_completeness auto
termination
  by (relation "measure (\<lambda>(best_merges, best_merge_for_each_block, num_merged, counter, block_map, this).
                   length best_merges - nat counter)")
     (simp_all add: in_range_next)

declare merge_loop.simps [simp del]

text \<open>
  \<open>std::unique\<close> (line 135) moves the elements that differ from their
  predecessor to the front and returns the end of that range; what it leaves
  behind the range is unspecified (for \<open>int\<close>, the old coefficients). The result
  is the buffer and the distance of the new end from its start.
\<close>

definition std_unique :: "Vector \<Rightarrow> Vector \<times> nat" where
  "std_unique v =
     (let kept = remdups_adj v in (kept @ drop (length kept) v, length kept))"

text \<open>
  Eigen's \<open>resize(n)\<close> (line 136) does nothing when the vector has \<open>n\<close>
  coefficients already; otherwise it frees the buffer and allocates one of \<open>n\<close>
  coefficients, which it does not initialise (\<open>conservativeResize\<close> is the variant
  that keeps them). What a new buffer holds is a parameter of the model:
  \<open>uninitialized k\<close> is the coefficient found at position \<open>k\<close>.
\<close>

definition resize :: "(nat \<Rightarrow> int) \<Rightarrow> Vector \<Rightarrow> nat \<Rightarrow> Vector" where
  "resize uninitialized v n = (if n = length v then v else map uninitialized [0..<n])"

text \<open>Lines 139 to 144: the remaining blocks are numbered in the order they stand.\<close>

fun number_remaining :: "Vector \<Rightarrow> int \<Rightarrow> Vector \<Rightarrow> error + Vector" where
  "number_remaining mapping counter [] = Inr mapping"
| "number_remaining mapping counter (rem_block # rest) =
     (case vset Mapping mapping rem_block counter of
        Inl e \<Rightarrow> Inl e
      | Inr mapping' \<Rightarrow> number_remaining mapping' (counter + 1) rest)"

text \<open>
  Lines 146 to 150: for each position \<open>i\<close> the block read there is looked up in
  \<open>mapping\<close>, and the new number is written at index \<open>block\<close>, as line 149 has it.
\<close>

function renumber_loop :: "Vector \<Rightarrow> Vector \<Rightarrow> nat \<Rightarrow> error + Vector" where
  "renumber_loop mapping assignment i =
     (if i < length assignment
      then
        let block = assignment ! i in
        if \<not> in_range mapping block then Inl (OutOfRange Mapping)
        else
          let new_block = mapping ! nat block in
          if \<not> in_range assignment block then Inl (OutOfRange BlockAssignment)
          else renumber_loop mapping (assignment[nat block := new_block]) (i + 1)
      else Inr assignment)"
  by pat_completeness auto
termination
  by (relation "measure (\<lambda>(mapping, assignment, i). length assignment - i)") auto

declare renumber_loop.simps [simp del]

text \<open>
  Lines 115 to 133: the candidates are ordered, the representative map is set
  up, and the loop runs from \<open>num_merged = 0\<close> and \<open>counter = 0\<close>. The result is the
  state in which the loop ended.
\<close>

definition select_merges ::
    "Partition \<Rightarrow> real list \<Rightarrow> Vector \<Rightarrow> error + (int \<times> int \<times> Vector \<times> Partition)" where
  "select_merges this delta_entropy_for_each_block best_merge_for_each_block =
     bind_res (sort_indices delta_entropy_for_each_block) (\<lambda>best_merges.
     let block_map = LinSpaced 1 0 (num_blocks this - 1) in
     merge_loop best_merges best_merge_for_each_block (0, 0, block_map, this))"

text \<open>Lines 134 to 151: the blocks that remain are renumbered.\<close>

definition compact_blocks :: "(nat \<Rightarrow> int) \<Rightarrow> Partition \<Rightarrow> error + Partition" where
  "compact_blocks uninitialized this =
     (let (remaining_blocks, end) = std_unique (block_assignment this);
          remaining_blocks = resize uninitialized remaining_blocks end
      in
      bind_res (Constant (num_blocks this) (- 1)) (\<lambda>mapping0.
      bind_res (number_remaining mapping0 0 remaining_blocks) (\<lambda>mapping.
      bind_res (renumber_loop mapping (block_assignment this) 0) (\<lambda>assignment.
        Inr (this\<lparr> block_assignment := assignment,
                    num_blocks := num_blocks this - num_blocks_to_merge this \<rparr>)))))"

definition carry_out_best_merges ::
    "(nat \<Rightarrow> int) \<Rightarrow> Partition \<Rightarrow> real list \<Rightarrow> Vector \<Rightarrow> error + Partition" where
  "carry_out_best_merges uninitialized this delta_entropy_for_each_block
       best_merge_for_each_block =
     bind_res (select_merges this delta_entropy_for_each_block best_merge_for_each_block)
       (\<lambda>(num_merged, counter, block_map, merged). compact_blocks uninitialized merged)"

section \<open>Concrete inputs\<close>

text \<open>
  The examples below run the functions on a partition of \<open>n\<close> blocks with a
  given assignment and a given number of pending merges, whose aggregates are
  zeroed, one entry per block.
\<close>

definition example_partition :: "int \<Rightarrow> Vector \<Rightarrow> int \<Rightarrow> Partition" where
  "example_partition n assignment pending =
     \<lparr> num_blocks = n,
       block_assignment = assignment,
       blockmodel = BoostMappedMatrix n n,
       block_degrees = replicate (nat n) 0,
       block_degrees_out = replicate (nat n) 0,
       block_degrees_in = replicate (nat n) 0,
       block_reduction_rate = 1 / 2,
       num_blocks_to_merge = pending,
       overall_entropy = 0 \<rparr>"

text \<open>The examples take a new buffer to be filled with one value.\<close>

definition filled_with :: "int \<Rightarrow> nat \<Rightarrow> int" where
  "filled_with x k = x"

section \<open>Relations between partitions\<close>



definition rows_match :: "nat \<Rightarrow> Partition \<Rightarrow> bool" where
  "rows_match n p =
     (length (blockmodel p) = n \<and> length (block_degrees_out p) = n
      \<and> (\<forall>i<n. row_sum (blockmodel p) i = block_degrees_out p ! i))"

definition relabelled :: "Partition \<Rightarrow> Partition \<Rightarrow> bool" where
  "relabelled p p' =
     (length (block_assignment p') = length (block_assignment p)
      \<and> num_blocks p' = num_blocks p
      \<and> blockmodel p' = blockmodel p
      \<and> block_degrees p' = block_degrees p
      \<and> block_degrees_out p' = block_degrees_out p
      \<and> block_degrees_in p' = block_degrees_in p
      \<and> block_reduction_rate p' = block_reduction_rate p
      \<and> num_blocks_to_merge p' = num_blocks_to_merge p
      \<and> overall_entropy p' = overall_entropy p)"

section \<open>Sequencing\<close>

lemma bind_res_simps [simp]:
  "bind_res (Inl e) f = Inl e"
  "bind_res (Inr x) f = f x"
  by (simp_all add: bind_res_def)

section \<open>Properties of \<open>initialize_edge_counts\<close>\<close>

lemmas initialize_edge_counts_eval =
  initialize_edge_counts_def edge_step_def vget_def vadd_def in_range_def matrix_add_def
  BoostMappedMatrix_def vector_plus_def example_partition_def numeral_2_eq_2

lemma sum_list_update_add:
  "k < length xs \<Longrightarrow> sum_list (xs[k := xs ! k + w]) = sum_list xs + (w :: int)"
proof (induction xs arbitrary: k)
  case Nil
  then show ?case by simp
next
  case (Cons x xs)
  then show ?case by (cases k) simp_all
qed

lemma edge_step_rows_match:
  assumes "rows_match n p" and "edge_step p vertex row = Inr p'"
  shows "rows_match n p'"
proof -
  from assms(2) obtain block neighbor_block bm dout din where
        bm: "matrix_add (blockmodel p) block neighbor_block (snd row) = Inr bm"
    and dout: "vadd BlockDegreesOut (block_degrees_out p) block (snd row) = Inr dout"
    and p': "p' = p\<lparr> blockmodel := bm, block_degrees_out := dout, block_degrees_in := din \<rparr>"
    by (auto simp: edge_step_def bind_res_def Let_def split: sum.splits)
  let ?m = "blockmodel p" and ?r = "nat block" and ?c = "nat neighbor_block" and ?w = "snd row"
  from bm have r: "?r < length ?m" and c: "?c < length (?m ! ?r)"
    and bm_eq: "bm = ?m[?r := (?m ! ?r)[?c := ?m ! ?r ! ?c + ?w]]"
    by (auto simp: matrix_add_def in_range_def split: if_splits)
  from dout have dout_eq: "dout = (block_degrees_out p)[?r := block_degrees_out p ! ?r + ?w]"
    by (auto simp: vadd_def split: if_splits)
  have "row_sum bm i = dout ! i" if "i < n" for i
  proof (cases "i = ?r")
    case True
    with r c assms(1) that show ?thesis
      by (simp add: row_sum_def bm_eq dout_eq rows_match_def sum_list_update_add)
  next
    case False
    with assms(1) that show ?thesis
      by (simp add: row_sum_def bm_eq dout_eq rows_match_def)
  qed
  with assms(1) show ?thesis
    by (simp add: rows_match_def p' bm_eq dout_eq)
qed

lemma edge_loop_rows_match:
  "rows_match n p \<Longrightarrow> edge_loop p vertex rows = Inr p' \<Longrightarrow> rows_match n p'"
  by (induction rows arbitrary: p) (auto split: sum.splits dest: edge_step_rows_match)

lemma vertex_loop_rows_match:
  "rows_match n p \<Longrightarrow> vertex_loop p vertex neighbors = Inr p' \<Longrightarrow> rows_match n p'"
  by (induction neighbors arbitrary: p vertex)
     (auto split: sum.splits if_splits dest: edge_loop_rows_match)

text \<open>
  The row half of the invariant holds. For every partition whose out-degree
  vector is zero with one entry per block when the call starts, and every
  adjacency on which the call returns, each row of the aggregate matrix sums to
  the out-degree of its block.
\<close>

theorem initialize_edge_counts_row_sums:
  assumes "block_degrees_out this = replicate (nat (num_blocks this)) 0"
      and "initialize_edge_counts this neighbors = Inr result"
  shows "\<forall>i < nat (num_blocks this). row_sum (blockmodel result) i = block_degrees_out result ! i"
proof -
  let ?p0 = "this\<lparr> blockmodel := BoostMappedMatrix (num_blocks this) (num_blocks this) \<rparr>"
  from assms(2) obtain p' where loop: "vertex_loop ?p0 0 neighbors = Inr p'"
    and res: "blockmodel result = blockmodel p'" "block_degrees_out result = block_degrees_out p'"
    by (auto simp: initialize_edge_counts_def bind_res_def vector_plus_def split: sum.splits if_splits)
  have "rows_match (nat (num_blocks this)) ?p0"
    using assms(1) by (simp add: rows_match_def BoostMappedMatrix_def row_sum_def sum_list_replicate)
  from vertex_loop_rows_match [OF this loop] res show ?thesis
    by (simp add: rows_match_def)
qed

theorem initialize_edge_counts_row_sums_witness:
  "block_degrees_out (example_partition 2 [1, 0] 0)
     = replicate (nat (num_blocks (example_partition 2 [1, 0] 0))) 0
   \<and> initialize_edge_counts (example_partition 2 [1, 0] 0) [[(1, 3)], [(0, 2), (1, 4)]]
       = Inr ((example_partition 2 [1, 0] 0)
                \<lparr> blockmodel := [[4, 2], [3, 0]], block_degrees := [8, 10],
                  block_degrees_out := [6, 3], block_degrees_in := [2, 7] \<rparr>)
   \<and> row_sum [[4, 2], [3, 0]] 0 = [6, 3] ! 0
   \<and> row_sum [[4, 2], [3, 0]] 1 = [6, 3 :: int] ! 1"
proof -
  have out0: "block_degrees_out (example_partition 2 [1, 0] 0)
     = replicate (nat (num_blocks (example_partition 2 [1, 0] 0))) 0"
    by (simp add: example_partition_def)
  have run: "initialize_edge_counts (example_partition 2 [1, 0] 0) [[(1, 3)], [(0, 2), (1, 4)]]
       = Inr ((example_partition 2 [1, 0] 0)
                \<lparr> blockmodel := [[4, 2], [3, 0]], block_degrees := [8, 10],
                  block_degrees_out := [6, 3], block_degrees_in := [2, 7] \<rparr>)"
    by (simp add: initialize_edge_counts_eval)
  have blocks: "nat (num_blocks (example_partition 2 [1, 0] 0)) = 2"
    by (simp add: example_partition_def)
  from initialize_edge_counts_row_sums [OF out0 run]
  have "row_sum [[4, 2], [3, 0]] 0 = [6, 3] ! 0 \<and> row_sum [[4, 2], [3, 0]] 1 = [6, 3 :: int] ! 1"
    unfolding blocks by simp
  with out0 run show ?thesis by blast
qed

text \<open>
  C2 on a concrete partition. Vertex \<open>0\<close> is in block \<open>1\<close>, vertex \<open>1\<close> in block
  \<open>0\<close>, and the one edge \<open>0 \<rightarrow> 1\<close> has weight \<open>3\<close>. The edge ends in block \<open>0\<close>, so
  column \<open>0\<close> of the aggregate matrix sums to \<open>3\<close>; line 21 adds the weight at the
  index of the neighbouring vertex, so the in-degree recorded for block \<open>0\<close> is
  \<open>0\<close> and that of block \<open>1\<close> is \<open>3\<close>.
\<close>

theorem initialize_edge_counts_in_degree_by_vertex:
  "initialize_edge_counts (example_partition 2 [1, 0] 0) [[(1, 3)], []]
     = Inr ((example_partition 2 [1, 0] 0)
              \<lparr> blockmodel := [[0, 0], [3, 0]], block_degrees := [0, 6],
                block_degrees_out := [0, 3], block_degrees_in := [0, 3] \<rparr>)
   \<and> col_sum [[0, 0], [3, 0]] 0 = 3
   \<and> col_sum [[0, 0], [3, 0]] 1 = 0"
  by (simp add: initialize_edge_counts_eval col_sum_def)
















section \<open>Properties of \<open>clone_with_true_block_membership\<close>\<close>

lemma mark_used_length:
  "mark_used u ms = Inr u' \<Longrightarrow> length u' = length u"
  by (induction ms arbitrary: u) (auto simp: vset_def split: if_splits sum.splits)

lemma mark_used_in_range:
  "\<forall>m\<in>set ms. in_range u m \<Longrightarrow> \<exists>u'. mark_used u ms = Inr u'"
proof (induction ms arbitrary: u)
  case Nil
  then show ?case by simp
next
  case (Cons m ms)
  then have "\<forall>b\<in>set ms. in_range (u[nat m := 1]) b"
    by (simp add: in_range_def)
  from Cons.IH [OF this] Cons.prems show ?case
    by (simp add: vset_def)
qed

lemma mark_used_nth:
  "mark_used u ms = Inr u' \<Longrightarrow> k < length u \<Longrightarrow>
   u' ! k = (if int k \<in> set ms then 1 else u ! k)"
proof (induction ms arbitrary: u)
  case Nil
  then show ?case by simp
next
  case (Cons m ms)
  from Cons.prems(1) have r: "in_range u m" and rest: "mark_used (u[nat m := 1]) ms = Inr u'"
    by (auto simp: vset_def split: if_splits)
  have "u' ! k = (if int k \<in> set ms then 1 else u[nat m := 1] ! k)"
    using Cons.IH [OF rest] Cons.prems(2) by simp
  also have "\<dots> = (if int k \<in> set (m # ms) then 1 else u ! k)"
    using r Cons.prems(2) by (auto simp: in_range_def nth_list_update)
  finally show ?case .
qed

lemma count_used_filter:
  "count_used n us = n + int (length (filter (\<lambda>u. u = 1) us))"
  by (induction us arbitrary: n) simp_all

lemma card_marked:
  assumes "\<forall>b\<in>S. 0 \<le> b \<and> b < int n"
  shows "card {k. k < n \<and> int k \<in> S} = card S"
proof -
  have "int ` {k. k < n \<and> int k \<in> S} = S"
  proof (rule set_eqI, rule iffI)
    fix b assume "b \<in> int ` {k. k < n \<and> int k \<in> S}"
    then show "b \<in> S" by auto
  next
    fix b assume b: "b \<in> S"
    with assms have "0 \<le> b" "b < int n" by auto
    then have "nat b < n" "int (nat b) = b" by auto
    with b show "b \<in> int ` {k. k < n \<and> int k \<in> S}"
      by (metis (mono_tags, lifting) image_eqI mem_Collect_eq)
  qed
  moreover have "card (int ` {k. k < n \<and> int k \<in> S}) = card {k. k < n \<and> int k \<in> S}"
    by (rule card_image) (simp add: inj_on_def)
  ultimately show ?thesis by simp
qed

text \<open>
  C9, as the source has it. The presence table \<open>uniques\<close> has one slot per entry
  of the membership vector, so the presence check ranges over the ids below the
  length of the vector. For every membership vector whose values lie in that
  range (they need not be contiguous), the clone is the partition constructed
  with the number of distinct values present as its block count and the
  membership vector as its assignment.
\<close>

theorem clone_counts_memberships_in_range:
  assumes "list_all (\<lambda>b. 0 \<le> b \<and> b < int (length true_block_membership)) true_block_membership"
  shows "clone_with_true_block_membership this neighbors true_block_membership
           = Inr (Partition_assigned (int (card (set true_block_membership))) neighbors
                    (block_reduction_rate this) true_block_membership)"
proof -
  let ?ms = true_block_membership
  let ?u0 = "replicate (length ?ms) (0::int)"
  have "\<forall>b\<in>set ?ms. in_range ?u0 b"
    using assms by (simp add: in_range_def list_all_iff)
  then obtain u where u: "mark_used ?u0 ?ms = Inr u"
    using mark_used_in_range by blast
  have len: "length u = length ?ms"
    using mark_used_length [OF u] by simp
  have nth: "u ! k = (if int k \<in> set ?ms then 1 else 0)" if "k < length ?ms" for k
    using mark_used_nth [OF u, of k] that by simp
  have "length (filter (\<lambda>x. x = 1) u) = card {k. k < length u \<and> u ! k = 1}"
    by (rule length_filter_conv_card)
  also have "{k. k < length u \<and> u ! k = 1} = {k. k < length ?ms \<and> int k \<in> set ?ms}"
    using len nth by (auto split: if_splits)
  also have "card \<dots> = card (set ?ms)"
    by (rule card_marked) (use assms in \<open>simp add: list_all_iff\<close>)
  finally have "count_used 0 u = int (card (set ?ms))"
    by (simp add: count_used_filter)
  with u show ?thesis
    by (simp add: clone_with_true_block_membership_def Zero_def Constant_def)
qed

text \<open>
  The theorem at the membership vector \<open>[0, 2, 2]\<close>, whose values skip block
  \<open>1\<close>: the clone has two blocks.
\<close>

theorem clone_counts_memberships_in_range_witness:
  "list_all (\<lambda>b. 0 \<le> b \<and> b < int (length [0, 2, 2 :: int])) [0, 2, 2]
   \<and> clone_with_true_block_membership (example_partition 3 [0, 1, 2] 1) [[], [], []] [0, 2, 2]
      = Inr (Partition_assigned 2 [[], [], []] (1 / 2) [0, 2, 2])"
  using clone_counts_memberships_in_range
          [of "[0, 2, 2]" "example_partition 3 [0, 1, 2] 1" "[[], [], []]"]
  by (simp add: example_partition_def)

text \<open>
  C9 as it is stated fails for a membership value outside that range: on the
  membership vector \<open>[0, 5]\<close> (two distinct blocks) line 34 writes slot \<open>5\<close> of a
  table of two slots, and no partition is constructed.
\<close>

theorem clone_membership_beyond_length_counterexample:
  "clone_with_true_block_membership (example_partition 2 [0, 1] 1) [[], []] [0, 5]
   = Inl (OutOfRange Uniques)"
  by (simp add: clone_with_true_block_membership_def Zero_def Constant_def vset_def in_range_def)

section \<open>Properties of \<open>copy\<close>\<close>

text \<open>Reading an object depends on its own buffers only.\<close>

lemma load_frame:
  assumes "\<forall>a\<in>set (vector_buffers obj). vectors h' a = vectors h a"
      and "matrices h' (blockmodel_at obj) = matrices h (blockmodel_at obj)"
  shows "load h' obj = load h obj"
  using assms by (simp add: load_def vector_buffers_def)

text \<open>
  C7. Let \<open>this\<close> be an object of the heap that stands for the partition \<open>p\<close>.
  Then \<open>copy\<close> returns an object \<open>c\<close> that stands for \<open>p\<close> with the pending-merge
  count set to zero (so assignment, aggregate matrix, the three degree vectors,
  block count, reduction rate and entropy are equal in value), and \<open>this\<close> still
  stands for \<open>p\<close>. The two objects share no buffer: whatever is written to a
  vector buffer or to the matrix buffer of the copy, \<open>this\<close> still stands for
  \<open>p\<close>, and whatever is written to a buffer of \<open>this\<close>, the copy still stands for
  the same value.
\<close>

theorem copy_equal_and_unshared:
  assumes given: "load h this = Some p"
      and alloc: "allocated h this"
  shows "\<exists>h' c. copy h this = Some (h', c)
           \<and> load h' c = Some (p\<lparr> num_blocks_to_merge := 0 \<rparr>)
           \<and> load h' this = Some p
           \<and> set (vector_buffers c) \<inter> set (vector_buffers this) = {}
           \<and> blockmodel_at c \<noteq> blockmodel_at this
           \<and> (\<forall>a\<in>set (vector_buffers c). \<forall>v. load (write_vector h' a v) this = Some p)
           \<and> (\<forall>m. load (write_matrix h' (blockmodel_at c) m) this = Some p)
           \<and> (\<forall>a\<in>set (vector_buffers this). \<forall>v.
                 load (write_vector h' a v) c = Some (p\<lparr> num_blocks_to_merge := 0 \<rparr>))
           \<and> (\<forall>m. load (write_matrix h' (blockmodel_at this) m) c
                      = Some (p\<lparr> num_blocks_to_merge := 0 \<rparr>))"
proof -
  from given obtain assignment bm degrees degrees_out degrees_in where
        r1: "vectors h (block_assignment_at this) = Some assignment"
    and r2: "matrices h (blockmodel_at this) = Some bm"
    and r3: "vectors h (block_degrees_at this) = Some degrees"
    and r4: "vectors h (block_degrees_out_at this) = Some degrees_out"
    and r5: "vectors h (block_degrees_in_at this) = Some degrees_in"
    and p: "p = \<lparr> num_blocks = num_blocks_of this, block_assignment = assignment,
                  blockmodel = bm, block_degrees = degrees, block_degrees_out = degrees_out,
                  block_degrees_in = degrees_in,
                  block_reduction_rate = block_reduction_rate_of this,
                  num_blocks_to_merge = num_blocks_to_merge_of this,
                  overall_entropy = overall_entropy_of this \<rparr>"
    by (auto simp: load_def Option.bind_eq_Some_conv)
  from alloc have below:
    "block_assignment_at this < next_free h" "blockmodel_at this < next_free h"
    "block_degrees_at this < next_free h" "block_degrees_out_at this < next_free h"
    "block_degrees_in_at this < next_free h"
    by (simp_all add: allocated_def vector_buffers_def)
  define n where "n = next_free h"
  define c where "c = \<lparr> num_blocks_of = num_blocks_of this,
                 block_assignment_at = n + 5,
                 blockmodel_at = n + 6,
                 block_degrees_at = n + 7,
                 block_degrees_out_at = n + 8,
                 block_degrees_in_at = n + 9,
                 block_reduction_rate_of = block_reduction_rate_of this,
                 num_blocks_to_merge_of = 0,
                 overall_entropy_of = overall_entropy_of this \<rparr>"
  obtain h' where cp: "copy h this = Some (h', c)"
    and hv: "vectors h' = (vectors h)(n \<mapsto> [], n + 2 \<mapsto> replicate (nat (num_blocks_of this)) 0,
               n + 3 \<mapsto> replicate (nat (num_blocks_of this)) 0,
               n + 4 \<mapsto> replicate (nat (num_blocks_of this)) 0,
               n + 5 \<mapsto> assignment, n + 7 \<mapsto> degrees, n + 8 \<mapsto> degrees_out,
               n + 9 \<mapsto> degrees_in)"
    and hm: "matrices h' = (matrices h)(n + 1 \<mapsto> BoostMappedMatrix (num_blocks_of this) (num_blocks_of this),
               n + 6 \<mapsto> bm)"
    using r1 r2 r3 r4 r5 below
    by (simp add: copy_def construct_def new_vector_def new_matrix_def Partition_fresh_def
        Partition_assigned_def matrix_copy_def c_def n_def eval_nat_numeral)
  have lc: "load h' c = Some (p\<lparr> num_blocks_to_merge := 0 \<rparr>)"
    by (simp add: load_def hv hm c_def p)
  have lt: "load h' this = Some p"
    using r1 r2 r3 r4 r5 below by (simp add: load_def hv hm p n_def)
  have disj: "set (vector_buffers c) \<inter> set (vector_buffers this) = {}"
    and mdisj: "blockmodel_at c \<noteq> blockmodel_at this"
    using below by (auto simp: vector_buffers_def c_def n_def)
  have w1: "\<forall>a\<in>set (vector_buffers c). \<forall>v. load (write_vector h' a v) this = Some p"
  proof (intro ballI allI)
    fix a v assume "a \<in> set (vector_buffers c)"
    with disj have "a \<notin> set (vector_buffers this)" by auto
    then have "load (write_vector h' a v) this = load h' this"
      by (intro load_frame) (auto simp: write_vector_def)
    with lt show "load (write_vector h' a v) this = Some p" by simp
  qed
  have w2: "\<forall>m. load (write_matrix h' (blockmodel_at c) m) this = Some p"
  proof
    fix m
    have "load (write_matrix h' (blockmodel_at c) m) this = load h' this"
      using mdisj by (intro load_frame) (auto simp: write_matrix_def)
    with lt show "load (write_matrix h' (blockmodel_at c) m) this = Some p" by simp
  qed
  have w3: "\<forall>a\<in>set (vector_buffers this). \<forall>v.
              load (write_vector h' a v) c = Some (p\<lparr> num_blocks_to_merge := 0 \<rparr>)"
  proof (intro ballI allI)
    fix a v assume "a \<in> set (vector_buffers this)"
    with disj have "a \<notin> set (vector_buffers c)" by auto
    then have "load (write_vector h' a v) c = load h' c"
      by (intro load_frame) (auto simp: write_vector_def)
    with lc show "load (write_vector h' a v) c = Some (p\<lparr> num_blocks_to_merge := 0 \<rparr>)" by simp
  qed
  have w4: "\<forall>m. load (write_matrix h' (blockmodel_at this) m) c
                  = Some (p\<lparr> num_blocks_to_merge := 0 \<rparr>)"
  proof
    fix m
    have "load (write_matrix h' (blockmodel_at this) m) c = load h' c"
      using mdisj by (intro load_frame) (auto simp: write_matrix_def)
    with lc show "load (write_matrix h' (blockmodel_at this) m) c
                    = Some (p\<lparr> num_blocks_to_merge := 0 \<rparr>)" by simp
  qed
  from cp lc lt disj mdisj w1 w2 w3 w4 show ?thesis by blast
qed

text \<open>
  The theorem at the object constructed on the empty heap for a partition of
  three vertices in two blocks with three pending merges.
\<close>

theorem copy_equal_and_unshared_witness:
  "load (fst (construct empty_heap (example_partition 2 [0, 1, 0] 3)))
        (snd (construct empty_heap (example_partition 2 [0, 1, 0] 3)))
     = Some (example_partition 2 [0, 1, 0] 3)
   \<and> allocated (fst (construct empty_heap (example_partition 2 [0, 1, 0] 3)))
                (snd (construct empty_heap (example_partition 2 [0, 1, 0] 3)))
   \<and> (\<exists>h' c. copy (fst (construct empty_heap (example_partition 2 [0, 1, 0] 3)))
                   (snd (construct empty_heap (example_partition 2 [0, 1, 0] 3)))
                = Some (h', c)
          \<and> load h' c = Some (example_partition 2 [0, 1, 0] 0)
          \<and> load h' (snd (construct empty_heap (example_partition 2 [0, 1, 0] 3)))
              = Some (example_partition 2 [0, 1, 0] 3)
          \<and> set (vector_buffers c)
              \<inter> set (vector_buffers (snd (construct empty_heap (example_partition 2 [0, 1, 0] 3))))
              = {}
          \<and> blockmodel_at c
              \<noteq> blockmodel_at (snd (construct empty_heap (example_partition 2 [0, 1, 0] 3))))"
proof -
  let ?hp = "fst (construct empty_heap (example_partition 2 [0, 1, 0] 3))"
  let ?obj = "snd (construct empty_heap (example_partition 2 [0, 1, 0] 3))"
  have given: "load ?hp ?obj = Some (example_partition 2 [0, 1, 0] 3)"
    by (simp add: construct_def new_vector_def new_matrix_def empty_heap_def load_def
        example_partition_def)
  have alloc: "allocated ?hp ?obj"
    by (simp add: construct_def new_vector_def new_matrix_def empty_heap_def allocated_def
        vector_buffers_def)
  have reset: "(example_partition 2 [0, 1, 0] 3)\<lparr> num_blocks_to_merge := 0 \<rparr>
                 = example_partition 2 [0, 1, 0] 0"
    by (simp add: example_partition_def)
  from copy_equal_and_unshared [OF given alloc] given alloc
  show ?thesis unfolding reset by blast
qed

section \<open>Properties of \<open>from_sample\<close>\<close>

lemma fill_from_sample_length:
  "fill_from_sample a s items = Inr a' \<Longrightarrow> length a' = length a"
  by (induction items arbitrary: a) (auto simp: vset_def split: sum.splits if_splits)

lemma assign_next_blocks_length:
  "assign_next_blocks a next_block vs = Inr a' \<Longrightarrow> length a' = length a"
  by (induction vs arbitrary: a next_block) (auto simp: vset_def split: sum.splits if_splits)

lemma assign_most_connected_length:
  "assign_most_connected a n vertex neighbors = Inr a' \<Longrightarrow> length a' = length a"
proof (induction neighbors arbitrary: a vertex)
  case Nil
  then show ?case by simp
next
  case (Cons rows rest)
  then show ?case
    by (fastforce simp: vset_def bind_res_def split: sum.splits if_splits)
qed

text \<open>
  Whenever \<open>from_sample\<close> returns, the assignment of its partition has one entry
  per block (line 59 allocates it with \<open>num_blocks\<close> entries), whatever the number
  of vertices.
\<close>

theorem from_sample_assignment_length:
  assumes "from_sample n neighbors sample_block_membership mapping rate = Inr result"
  shows "length (block_assignment result) = nat n"
proof -
  from assms obtain a0 a1 a2 a3 where
        "Constant n (- 1) = Inr a0"
    and "fill_from_sample a0 sample_block_membership mapping = Inr a1"
    and "assign_next_blocks a1 n [0..<length neighbors] = Inr a2"
    and "assign_most_connected a2 n 0 neighbors = Inr a3"
    and "result = Partition_assigned n neighbors rate a3"
    by (auto simp: from_sample_def bind_res_def split: sum.splits)
  then show ?thesis
    by (auto simp: Constant_def Partition_assigned_def split: if_splits
        dest!: fill_from_sample_length assign_next_blocks_length assign_most_connected_length)
qed

lemmas from_sample_eval =
  from_sample_def Constant_def Zero_def vset_def vget_def vadd_def in_range_def upt_rec
  maxCoeff_index_def eval_nat_numeral

theorem from_sample_assignment_length_witness:
  "from_sample 2 [[], [(0, 1)]] [1] [(0, 0)] (1 / 2)
     = Inr (Partition_assigned 2 [[], [(0, 1)]] (1 / 2) [1, 1])
   \<and> length (block_assignment (Partition_assigned 2 [[], [(0, 1)]] (1 / 2) [1, 1])) = nat 2"
proof -
  have run: "from_sample 2 [[], [(0, 1)]] [1] [(0, 0)] (1 / 2)
     = Inr (Partition_assigned 2 [[], [(0, 1)]] (1 / 2) [1, 1])"
    by (simp add: from_sample_eval)
  from from_sample_assignment_length [OF run] run show ?thesis by blast
qed

text \<open>
  C6 where the number of vertices differs from the number of blocks. With one
  vertex and two blocks the assignment returned has two entries, the second still
  at the initial \<open>-1\<close>. With three vertices and two blocks the loop of line 65 reads
  \<open>block_assignment[2]\<close>, which does not exist.
\<close>

theorem from_sample_assignment_as_long_as_blocks:
  "from_sample 2 [[]] [1] [(0, 0)] (1 / 2) = Inr (Partition_assigned 2 [[]] (1 / 2) [1, - 1])
   \<and> from_sample 2 [[], [], []] [0] [(0, 0)] (1 / 2) = Inl (OutOfRange BlockAssignment)"
  by (simp add: from_sample_eval)

section \<open>Properties of \<open>merge_blocks\<close>\<close>

lemma merge_blocks_loop_length:
  "length (merge_blocks_loop v f t i) = length v"
proof (induction v f t i rule: merge_blocks_loop.induct)
  case (1 v f t i)
  show ?case
  proof (cases "i < length v")
    case True
    with "1.IH" show ?thesis
      by (subst merge_blocks_loop.simps) simp
  next
    case False
    then show ?thesis
      by (subst merge_blocks_loop.simps) simp
  qed
qed

lemma merge_blocks_loop_nth:
  "k < length v \<Longrightarrow>
   merge_blocks_loop v f t i ! k = (if i \<le> k \<and> v ! k = f then t else v ! k)"
proof (induction v f t i rule: merge_blocks_loop.induct)
  case (1 v f t i)
  show ?case
  proof (cases "i < length v")
    case True
    let ?v' = "if v ! i = f then v[i := t] else v"
    have len: "k < length ?v'" using "1.prems" by simp
    have step: "merge_blocks_loop v f t i = merge_blocks_loop ?v' f t (i + 1)"
      using True by (subst merge_blocks_loop.simps) simp
    have "merge_blocks_loop ?v' f t (i + 1) ! k
            = (if i + 1 \<le> k \<and> ?v' ! k = f then t else ?v' ! k)"
      using "1.IH" [OF True len] .
    also have "\<dots> = (if i \<le> k \<and> v ! k = f then t else v ! k)"
      using "1.prems" True by (cases "k = i") (auto simp: nth_list_update)
    finally show ?thesis using step by simp
  next
    case False
    with "1.prems" show ?thesis
      by (subst merge_blocks_loop.simps) simp
  qed
qed

lemma merge_blocks_loop_map:
  "merge_blocks_loop v f t 0 = map (\<lambda>b. if b = f then t else b) v"
  by (rule nth_equalityI) (simp_all add: merge_blocks_loop_length merge_blocks_loop_nth)

text \<open>
  C8. \<open>merge_blocks(from, to)\<close> relabels exactly the vertices whose block is
  \<open>from\<close>: after the call the assignment has its old length, every vertex that
  was in \<open>from\<close> is in \<open>to\<close>, every other vertex keeps its block, and the
  aggregate matrix, the three degree vectors and the block count (as well as the
  remaining scalar fields) are what they were.
\<close>

theorem merge_blocks_relabels_and_frames:
  "block_assignment (merge_blocks this from_block to_block)
     = map (\<lambda>b. if b = from_block then to_block else b) (block_assignment this)
   \<and> blockmodel (merge_blocks this from_block to_block) = blockmodel this
   \<and> block_degrees_out (merge_blocks this from_block to_block) = block_degrees_out this
   \<and> block_degrees_in (merge_blocks this from_block to_block) = block_degrees_in this
   \<and> block_degrees (merge_blocks this from_block to_block) = block_degrees this
   \<and> num_blocks (merge_blocks this from_block to_block) = num_blocks this
   \<and> num_blocks_to_merge (merge_blocks this from_block to_block) = num_blocks_to_merge this
   \<and> block_reduction_rate (merge_blocks this from_block to_block) = block_reduction_rate this
   \<and> overall_entropy (merge_blocks this from_block to_block) = overall_entropy this"
  by (simp add: merge_blocks_def merge_blocks_loop_map)

section \<open>Properties of \<open>sort_indices\<close>\<close>

text \<open>
  \<open>LinSpaced(1, 0, unsorted.size() - 1)\<close> is a vector of one element, and sorting
  it compares nothing: whatever the scores, \<open>sort_indices\<close> returns the single
  index \<open>unsorted.size() - 1\<close>.
\<close>

lemma sort_indices_singleton:
  "sort_indices unsorted = Inr [int (length unsorted) - 1]"
  by (simp add: sort_indices_def)

text \<open>
  For every score vector, then, the candidate ordering is the one-element vector
  that holds the last block id.
\<close>

theorem sort_indices_returns_last_index:
  "sort_indices unsorted = Inr [int (length unsorted) - 1]"
  by (rule sort_indices_singleton)

text \<open>
  C4 on two scores. Block \<open>0\<close> has the higher score, so the descending order of
  the block ids is \<open>[0, 1]\<close>. \<open>sort_indices\<close> returns the single index \<open>1\<close>: line 103
  builds the index vector with \<open>LinSpaced(1, 0, unsorted.size() - 1)\<close>, whose first
  argument is the size.
\<close>

theorem sort_indices_two_scores:
  "sort_indices [1 / 2, 1 / 5] = Inr [1]"
  by (simp add: sort_indices_singleton)

section \<open>Properties of \<open>carry_out_best_merges\<close>\<close>

lemmas carry_out_best_merges_eval =
  carry_out_best_merges_def select_merges_def sort_indices_singleton
  compact_blocks_def std_unique_def resize_def filled_with_def Constant_def vset_def vget_def in_range_def
  merge_loop.simps renumber_loop.simps merge_blocks_def merge_blocks_loop.simps Let_def
  example_partition_def

text \<open>
  The loop leaves only through its guard, and its body relabels vertices and
  nothing else: a run of the loop that returns has changed the partition in the
  entries of its assignment only, and if it started with no more merges counted
  than are pending, it has counted exactly the pending merges.
\<close>

lemma merge_loop_result:
  "merge_loop bm bmf s = Inr s' \<Longrightarrow>
   relabelled (snd (snd (snd s))) (snd (snd (snd s')))
   \<and> (fst s \<le> num_blocks_to_merge (snd (snd (snd s)))
        \<longrightarrow> fst s' = num_blocks_to_merge (snd (snd (snd s))))"
proof (induction bm bmf s rule: merge_loop.induct)
  case (1 bm bmf nm c m p)
  show ?case
  proof (cases "nm < num_blocks_to_merge p")
    case False
    with "1.prems" show ?thesis
      by (auto simp: merge_loop.simps relabelled_def)
  next
    case True
    note run = "1.prems"(1) [unfolded merge_loop.simps [of bm bmf nm c m p]]
    from run True have r1: "in_range bm c"
      by (auto split: if_splits)
    define merge_from where "merge_from = bm ! nat c"
    from run True r1 have r2: "in_range bmf merge_from"
      by (auto simp: Let_def merge_from_def split: if_splits)
    define proposed where "proposed = bmf ! nat merge_from"
    from run True r1 r2 have r3: "in_range m proposed"
      by (auto simp: Let_def merge_from_def proposed_def split: if_splits)
    define merge_to where "merge_to = m ! nat proposed"
    show ?thesis
    proof (cases "merge_to \<noteq> merge_from")
      case True
      with run \<open>nm < num_blocks_to_merge p\<close> r1 r2 r3
      have rec: "merge_loop bm bmf (nm + 1, c + 1, merge_blocks_loop m merge_from merge_to 0,
                   merge_blocks p merge_from merge_to) = Inr s'"
        by (simp add: Let_def merge_from_def proposed_def merge_to_def)
      show ?thesis
        using "1.IH"(1) [OF \<open>nm < num_blocks_to_merge p\<close> _ merge_from_def _ proposed_def _
                            merge_to_def True rec]
              r1 r2 r3 \<open>nm < num_blocks_to_merge p\<close>
        by (simp add: merge_blocks_def merge_blocks_loop_length relabelled_def)
    next
      case False
      with run \<open>nm < num_blocks_to_merge p\<close> r1 r2 r3
      have rec: "merge_loop bm bmf (nm, c + 1, m, p) = Inr s'"
        by (simp add: Let_def merge_from_def proposed_def merge_to_def)
      show ?thesis
        using "1.IH"(2) [OF \<open>nm < num_blocks_to_merge p\<close> _ merge_from_def _ proposed_def _
                            merge_to_def _ rec]
              r1 r2 r3 \<open>nm < num_blocks_to_merge p\<close> False
        by simp
    qed
  qed
qed




lemma renumber_loop_length:
  "renumber_loop mapping v i = Inr v' \<Longrightarrow> length v' = length v"
proof (induction mapping v i rule: renumber_loop.induct)
  case (1 mapping v i)
  show ?case
  proof (cases "i < length v")
    case True
    with "1.prems" "1.IH" show ?thesis
      by (subst (asm) renumber_loop.simps) (auto simp: Let_def split: if_splits)
  next
    case False
    with "1.prems" show ?thesis
      by (subst (asm) renumber_loop.simps) simp
  qed
qed

text \<open>
  What a call that returns has changed: the block count has gone down by
  exactly the pending merges, the assignment keeps its length, and the
  aggregate matrix and the degree vectors are as they were (the merges do not
  update them).
\<close>

theorem carry_out_best_merges_frame:
  assumes "carry_out_best_merges uninitialized this delta_entropy_for_each_block
             best_merge_for_each_block = Inr result"
  shows "num_blocks result = num_blocks this - num_blocks_to_merge this
         \<and> length (block_assignment result) = length (block_assignment this)
         \<and> blockmodel result = blockmodel this
         \<and> block_degrees_out result = block_degrees_out this
         \<and> block_degrees_in result = block_degrees_in this
         \<and> block_degrees result = block_degrees this
         \<and> num_blocks_to_merge result = num_blocks_to_merge this"
proof -
  from assms obtain num_merged counter block_map merged
    where sel: "select_merges this delta_entropy_for_each_block best_merge_for_each_block
                  = Inr (num_merged, counter, block_map, merged)"
      and com: "compact_blocks uninitialized merged = Inr result"
    by (auto simp: carry_out_best_merges_def bind_res_def split: sum.splits)
  from sel have
    "merge_loop [int (length delta_entropy_for_each_block) - 1] best_merge_for_each_block
       (0, 0, LinSpaced 1 0 (num_blocks this - 1), this) = Inr (num_merged, counter, block_map, merged)"
    by (simp add: select_merges_def sort_indices_singleton)
  from merge_loop_result [OF this] have fr: "relabelled this merged"
    by simp
  from com obtain v a' where rl: "renumber_loop v (block_assignment merged) 0 = Inr a'"
    and res: "result = merged\<lparr> block_assignment := a',
                   num_blocks := num_blocks merged - num_blocks_to_merge merged \<rparr>"
    by (auto simp: compact_blocks_def bind_res_def Let_def split: sum.splits prod.splits)
  show ?thesis
    using fr renumber_loop_length [OF rl] by (simp add: res relabelled_def)
qed

theorem carry_out_best_merges_frame_witness:
  "carry_out_best_merges (filled_with 1) (example_partition 2 [0, 1] 1) [1] [0]
     = Inr ((example_partition 2 [0, 1] 1)\<lparr> block_assignment := [- 1, 0], num_blocks := 1 \<rparr>)
   \<and> num_blocks ((example_partition 2 [0, 1] 1)\<lparr> block_assignment := [- 1, 0], num_blocks := 1 \<rparr>)
       = num_blocks (example_partition 2 [0, 1] 1)
         - num_blocks_to_merge (example_partition 2 [0, 1] 1)
   \<and> blockmodel ((example_partition 2 [0, 1] 1)\<lparr> block_assignment := [- 1, 0], num_blocks := 1 \<rparr>)
       = blockmodel (example_partition 2 [0, 1] 1)"
proof -
  have run: "carry_out_best_merges (filled_with 1) (example_partition 2 [0, 1] 1) [1] [0]
     = Inr ((example_partition 2 [0, 1] 1)\<lparr> block_assignment := [- 1, 0], num_blocks := 1 \<rparr>)"
    by (simp add: carry_out_best_merges_eval)
  from carry_out_best_merges_frame [OF run] run show ?thesis by blast
qed

text \<open>
  C1 on a partition of three vertices in two blocks, both in use, with nothing
  pending, so that only the compaction of lines 134 to 151 runs. The assignment
  \<open>[0, 1, 0]\<close> is not sorted: \<open>std::unique\<close> removes nothing (so line 136 leaves
  the buffer alone) and block \<open>0\<close> is numbered twice, last with \<open>2\<close>. Line 149
  writes the new number at index \<open>block\<close> and not at the vertex, so vertex \<open>0\<close> ends
  in block \<open>2\<close>, outside \<open>[0, 2)\<close>, while vertex \<open>2\<close> of the same block keeps \<open>0\<close>.
\<close>

theorem carry_out_best_merges_corrupts_assignment:
  "carry_out_best_merges uninitialized (example_partition 2 [0, 1, 0] 0) [1 / 2, 1 / 5] [1, 0]
     = Inr ((example_partition 2 [0, 1, 0] 0)\<lparr> block_assignment := [2, 1, 0] \<rparr>)"
  by (simp add: carry_out_best_merges_eval)

text \<open>
  C3 on a chain. Three blocks, two pending merges, scores \<open>[3, 2, 1]\<close> and
  proposals \<open>0 \<rightarrow> 1\<close>, \<open>1 \<rightarrow> 2\<close>, \<open>2 \<rightarrow> 2\<close>: the candidates \<open>0\<close> and \<open>1\<close> should both be
  selected and all vertices end in one block. \<open>best_merges\<close> and \<open>block_map\<close> each
  have one element (\<open>[2]\<close>), so the loop looks up \<open>block_map[2]\<close> for the only
  candidate it has and leaves the vector: no candidate is selected.
\<close>

theorem carry_out_best_merges_chain_not_selected:
  "carry_out_best_merges uninitialized (example_partition 3 [0, 1, 2] 2) [3, 2, 1] [1, 2, 2]
     = Inl (OutOfRange BlockMap)"
  by (simp add: carry_out_best_merges_eval)

text \<open>
  The same holds of every call that has one score per block and a merge pending:
  the only candidate is the last block, it resolves to itself or the run leaves a
  vector, and the second read of \<open>best_merges\<close> is out of range.
\<close>

lemma merge_loop_stuck:
  assumes "0 < num_blocks_to_merge this"
  shows "isl (merge_loop [k] best (0, 0, [k], this))"
proof (cases "in_range best k \<and> best ! nat k = 0")
  case True
  then show ?thesis
    using assms by (simp add: merge_loop.simps [of _ _ 0 0] merge_loop.simps [of _ _ 0 1] in_range_def)
next
  case False
  then show ?thesis
    using assms by (auto simp: merge_loop.simps [of _ _ 0 0] in_range_def Let_def)
qed

theorem carry_out_best_merges_with_pending_merges_fails:
  assumes "int (length delta_entropy_for_each_block) = num_blocks this"
      and "0 < num_blocks_to_merge this"
  shows "isl (carry_out_best_merges uninitialized this delta_entropy_for_each_block
                best_merge_for_each_block)"
proof -
  have "isl (select_merges this delta_entropy_for_each_block best_merge_for_each_block)"
    using merge_loop_stuck [OF assms(2), of "num_blocks this - 1" best_merge_for_each_block] assms(1)
    by (simp add: select_merges_def sort_indices_singleton)
  then show ?thesis
    by (auto simp: carry_out_best_merges_def bind_res_def split: sum.splits)
qed

theorem carry_out_best_merges_with_pending_merges_fails_witness:
  "int (length [3, 2, 1 :: real]) = num_blocks (example_partition 3 [0, 1, 2] 2)
   \<and> 0 < num_blocks_to_merge (example_partition 3 [0, 1, 2] 2)
   \<and> isl (carry_out_best_merges (filled_with 0) (example_partition 3 [0, 1, 2] 2)
            [3, 2, 1] [1, 2, 2])"
proof -
  have scores: "int (length [3, 2, 1 :: real]) = num_blocks (example_partition 3 [0, 1, 2] 2)"
    and pending: "0 < num_blocks_to_merge (example_partition 3 [0, 1, 2] 2)"
    by (simp_all add: example_partition_def)
  from carry_out_best_merges_with_pending_merges_fails [OF scores pending] scores pending
  show ?thesis by blast
qed

end
